theory Spec2Isabelle
  imports Main
begin

section \<open>JavaScript values seen by the client\<close>

text \<open>
  The client handles three kinds of untyped data: the parameter record of a call
  (\<open>Record<string, unknown>\<close>), the parsed JSON body of a response (\<open>any\<close>) and the
  error payload inside such a body. All three are values of \<open>jsval\<close>. Numbers are
  integers here; an object is the list of its own entries in \<open>Object.entries\<close> order.
\<close>

datatype jsval =
    JUndefined
  | JNull
  | JBool bool
  | JNum int
  | JStr string
  | JArr "jsval list"
  | JObj "(string \<times> jsval) list"

text \<open>Truthiness, as used by \<open>||\<close> and \<open>&&\<close>.\<close>

fun truthy :: "jsval \<Rightarrow> bool" where
  "truthy JUndefined = False"
| "truthy JNull = False"
| "truthy (JBool b) = b"
| "truthy (JNum n) = (n \<noteq> 0)"
| "truthy (JStr s) = (s \<noteq> [])"
| "truthy (JArr xs) = True"
| "truthy (JObj kvs) = True"

text \<open>
  A property read \<open>v.k\<close> on a value that is neither \<open>null\<close> nor \<open>undefined\<close>. None of the
  names the client reads (\<open>error\<close>, \<open>type\<close>, \<open>code\<close>, \<open>message\<close>, \<open>param\<close>, \<open>doc_url\<close>) is
  defined on a primitive or on an array, so the read gives \<open>undefined\<close> there. On \<open>null\<close>
  the read throws; each call site below writes that branch out.
\<close>

fun member :: "jsval \<Rightarrow> string \<Rightarrow> jsval" where
  "member (JObj kvs) k = (case map_of kvs k of None \<Rightarrow> JUndefined | Some v \<Rightarrow> v)"
| "member v k = JUndefined"

fun string_of_nat :: "nat \<Rightarrow> string" where
  "string_of_nat n =
     (if n < 10 then [''0123456789'' ! n]
      else string_of_nat (n div 10) @ [''0123456789'' ! (n mod 10)])"

definition string_of_int :: "int \<Rightarrow> string" where
  "string_of_int i =
     (if i < 0 then CHR ''-'' # string_of_nat (nat (- i)) else string_of_nat (nat i))"

fun join_comma :: "string list \<Rightarrow> string" where
  "join_comma [] = []"
| "join_comma [s] = s"
| "join_comma (s # t # ss) = s @ CHR '','' # join_comma (t # ss)"

text \<open>\<open>String(value)\<close>: the conversion applied to a query parameter and to an error message.\<close>

fun String_js :: "jsval \<Rightarrow> string" where
  "String_js JUndefined = ''undefined''"
| "String_js JNull = ''null''"
| "String_js (JBool b) = (if b then ''true'' else ''false'')"
| "String_js (JNum n) = string_of_int n"
| "String_js (JStr s) = s"
| "String_js (JArr xs) =
     join_comma (map (\<lambda>x. if x = JUndefined \<or> x = JNull then [] else String_js x) xs)"
| "String_js (JObj kvs) = ''[object Object]''"

text \<open>
  What a \<open>throw\<close> or a rejected promise of the platform carries: an \<open>Error\<close> instance with
  its \<open>name\<close> and \<open>message\<close>, or some value that is not an \<open>Error\<close>.
\<close>

datatype js_exn = JsError (exn_name: string) (exn_message: string) | NonError

fun instanceof_Error :: "js_exn \<Rightarrow> bool" where
  "instanceof_Error (JsError n m) = True"
| "instanceof_Error NonError = False"

section \<open>client.ts: the structured error\<close>

record VaultixAPIError =
  name :: string
  message :: string
  type :: jsval
  code :: jsval
  param :: jsval
  docUrl :: jsval
  statusCode :: int

text \<open>
  The constructor copies the fields of the payload. \<open>super(error.message)\<close> leaves the
  message empty when the payload has none and converts it to a string otherwise. Both call
  sites pass an object literal or a truthy value, so the reads never throw.
\<close>

definition VaultixAPIError_new :: "jsval \<Rightarrow> int \<Rightarrow> VaultixAPIError" where
  "VaultixAPIError_new error status =
     \<lparr> name = ''VaultixAPIError'',
       message = (if member error ''message'' = JUndefined then []
                  else String_js (member error ''message'')),
       type = member error ''type'',
       code = member error ''code'',
       param = member error ''param'',
       docUrl = member error ''doc_url'',
       statusCode = status \<rparr>"

text \<open>Everything that can be thrown inside \<open>request\<close>.\<close>

datatype thrown = APIError VaultixAPIError | Other js_exn

section \<open>client.ts: configuration and construction\<close>

definition DEFAULT_BASE_URL :: string where
  "DEFAULT_BASE_URL = ''https://console.velon.app/api''"

definition DEFAULT_TIMEOUT :: int where
  "DEFAULT_TIMEOUT = 30000"

definition DEFAULT_MAX_RETRIES :: int where
  "DEFAULT_MAX_RETRIES = 3"

text \<open>
  \<open>VaultixConfig\<close>: an absent (or \<open>undefined\<close>) field is \<open>None\<close>. The secret key is declared
  as required, but the constructor also guards against its absence.
\<close>

record VaultixConfig =
  config_secretKey :: "string option"
  config_baseUrl :: "string option"
  config_timeout :: "int option"
  config_maxRetries :: "int option"

record VaultixClient =
  secretKey :: string
  baseUrl :: string
  timeout :: int
  maxRetries :: int

text \<open>\<open>s.startsWith(p)\<close>.\<close>

fun startsWith :: "string \<Rightarrow> string \<Rightarrow> bool" where
  "startsWith s [] = True"
| "startsWith [] (p # ps) = False"
| "startsWith (x # xs) (p # ps) = (x = p \<and> startsWith xs ps)"

definition VaultixClient_new :: "VaultixConfig \<Rightarrow> js_exn + VaultixClient" where
  "VaultixClient_new config =
     (case config_secretKey config of
        None \<Rightarrow> Inl (JsError ''Error'' ''Secret key is required'')
      | Some key \<Rightarrow>
          if key = [] then Inl (JsError ''Error'' ''Secret key is required'')
          else if \<not> startsWith key ''sk_'' then
            Inl (JsError ''Error''
                   ''Invalid secret key format. Must start with sk_live_ or sk_test_'')
          else Inr
            \<lparr> secretKey = key,
              baseUrl = (case config_baseUrl config of
                           None \<Rightarrow> DEFAULT_BASE_URL
                         | Some b \<Rightarrow> if b = [] then DEFAULT_BASE_URL else b),
              timeout = (case config_timeout config of
                           None \<Rightarrow> DEFAULT_TIMEOUT
                         | Some t \<Rightarrow> if t = 0 then DEFAULT_TIMEOUT else t),
              maxRetries = (case config_maxRetries config of
                              None \<Rightarrow> DEFAULT_MAX_RETRIES
                            | Some m \<Rightarrow> m) \<rparr>)"

definition isTestMode :: "VaultixClient \<Rightarrow> bool" where
  "isTestMode c = startsWith (secretKey c) ''sk_test_''"

section \<open>vaultix.ts: the SDK object\<close>

text \<open>
  The SDK object owns one client; each resource proxy holds a reference to that same
  client and adds no state of its own.
\<close>

record Vaultix =
  client :: VaultixClient

definition Vaultix_new :: "VaultixConfig \<Rightarrow> js_exn + Vaultix" where
  "Vaultix_new config =
     (case VaultixClient_new config of
        Inl e \<Rightarrow> Inl e
      | Inr c \<Rightarrow> Inr \<lparr> client = c \<rparr>)"

definition Vaultix_isTestMode :: "Vaultix \<Rightarrow> bool" where
  "Vaultix_isTestMode v = isTestMode (client v)"

section \<open>client.ts: the request executor\<close>

datatype http_method = GET | POST | PUT | DELETE

text \<open>
  \<open>new URL(path, baseUrl)\<close> is the platform's parser. The model keeps the two strings as
  given; \<open>searchParams\<close> holds the pairs appended after construction (a query string
  written inside \<open>path\<close> stays inside \<open>url_path\<close>). The constructor throws a \<open>TypeError\<close>
  when the pair does not parse; whether it parses is the platform's decision
  (\<open>parses path base\<close>).
\<close>

record URL =
  url_path :: string
  url_base :: string
  searchParams :: "(string \<times> string) list"

definition URL_new :: "(string \<Rightarrow> string \<Rightarrow> bool) \<Rightarrow> string \<Rightarrow> string \<Rightarrow> js_exn + URL" where
  "URL_new parses path base =
     (if parses path base
      then Inr \<lparr> url_path = path, url_base = base, searchParams = [] \<rparr>
      else Inl (JsError ''TypeError'' ''Invalid URL''))"

definition searchParams_append :: "URL \<Rightarrow> string \<Rightarrow> string \<Rightarrow> URL" where
  "searchParams_append url key v = url \<lparr> searchParams := searchParams url @ [(key, v)] \<rparr>"

text \<open>Lines 70--77: the \<open>forEach\<close> over \<open>Object.entries(data)\<close> of a GET request.\<close>

definition add_query_params :: "URL \<Rightarrow> (string \<times> jsval) list \<Rightarrow> URL" where
  "add_query_params url entries =
     foldl (\<lambda>u (key, v).
              if v \<noteq> JUndefined \<and> v \<noteq> JNull
              then searchParams_append u key (String_js v) else u)
           url entries"

text \<open>
  The argument of \<open>fetch\<close>. The body is \<open>JSON.stringify(data)\<close>; the model keeps the record
  that is serialised, \<open>None\<close> standing for \<open>undefined\<close> (no body).
\<close>

record fetch_call =
  fetch_url :: URL
  fetch_method :: http_method
  fetch_headers :: "(string \<times> string) list"
  fetch_body :: "(string \<times> jsval) list option"

definition build_fetch ::
    "VaultixClient \<Rightarrow> URL \<Rightarrow> http_method \<Rightarrow> (string \<times> jsval) list option \<Rightarrow> fetch_call" where
  "build_fetch c url0 method data =
     \<lparr> fetch_url = (case data of
                      None \<Rightarrow> url0
                    | Some entries \<Rightarrow>
                        if method = GET then add_query_params url0 entries else url0),
       fetch_method = method,
       fetch_headers =
         [(''Authorization'', ''Bearer '' @ secretKey c),
          (''Content-Type'', ''application/json''),
          (''User-Agent'', ''@vaultix/sdk/1.0.0'')],
       fetch_body = (if method \<noteq> GET then data else None) \<rparr>"

text \<open>
  What the network does with one \<open>fetch\<close>: it answers with a status and a body that
  \<open>response.json()\<close> parses or rejects, or the promise of \<open>fetch\<close> itself rejects. The
  timer of lines 79--80 is not an effect of its own: when it fires before \<open>fetch\<close> has
  settled, \<open>fetch\<close> rejects with the error named \<open>AbortError\<close>, and that rejection is
  the timeout. \<open>response.ok\<close> is the platform's test that the status lies in 200..299.
\<close>

datatype response_body = Json jsval | Unparseable string

datatype outcome = Responds int response_body | Rejects js_exn

definition response_ok :: "int \<Rightarrow> bool" where
  "response_ok status = (200 \<le> status \<and> status \<le> 299)"

definition shouldRetry :: "VaultixClient \<Rightarrow> int \<Rightarrow> nat \<Rightarrow> bool" where
  "shouldRetry c status retryCount =
     (if int retryCount \<ge> maxRetries c then False
      else status \<ge> 500 \<or> status = 429)"

text \<open>
  The retry count is a natural number: it starts at 0 and only ever grows by 1.
  \<open>maxRetries\<close> is whatever integer the configuration gave, negative ones included.
\<close>

definition getRetryDelay :: "nat \<Rightarrow> int" where
  "getRetryDelay retryCount = min (1000 * 2 ^ retryCount) 10000"

text \<open>How one pass through the body of \<open>request\<close> ends.\<close>

datatype control = Return jsval | Throw thrown | Retry int

definition unknown_error_payload :: jsval where
  "unknown_error_payload =
     JObj [(''type'', JStr ''api_error''), (''code'', JStr ''unknown_error''),
           (''message'', JStr ''An unknown error occurred'')]"

definition timeout_payload :: "VaultixClient \<Rightarrow> jsval" where
  "timeout_payload c =
     JObj [(''type'', JStr ''api_error''), (''code'', JStr ''timeout''),
           (''message'',
            JStr (''Request timed out after '' @ string_of_int (timeout c) @ ''ms''))]"

definition network_error_payload :: "js_exn \<Rightarrow> jsval" where
  "network_error_payload e =
     JObj [(''type'', JStr ''api_error''), (''code'', JStr ''network_error''),
           (''message'',
            JStr (if instanceof_Error e then exn_message e else ''Network error''))]"

text \<open>
  Lines 83--113, the \<open>try\<close> block, after \<open>fetch\<close> has settled with \<open>out\<close>. \<open>Retry ms\<close>
  stands for \<open>await this.sleep(ms); return this.request(..., retryCount + 1)\<close>; the promise
  of that call is returned without \<open>await\<close>, so its rejection does not pass through the
  \<open>catch\<close> of this call.
\<close>

definition try_block :: "VaultixClient \<Rightarrow> nat \<Rightarrow> outcome \<Rightarrow> control" where
  "try_block c retryCount out =
     (case out of
        Rejects e \<Rightarrow> Throw (Other e)
      | Responds status b \<Rightarrow>
          (case b of
             Unparseable msg \<Rightarrow> Throw (Other (JsError ''SyntaxError'' msg))
           | Json json \<Rightarrow>
               if \<not> response_ok status then
                 if shouldRetry c status retryCount then Retry (getRetryDelay retryCount)
                 else if json = JNull \<or> json = JUndefined then
                   Throw (Other (JsError ''TypeError''
                          ''Cannot read properties of null (reading 'error')''))
                 else Throw (APIError (VaultixAPIError_new
                        (if truthy (member json ''error'') then member json ''error''
                         else unknown_error_payload)
                        status))
               else Return json))"

text \<open>Lines 114--141, the \<open>catch\<close> block.\<close>

definition catch_block :: "VaultixClient \<Rightarrow> nat \<Rightarrow> thrown \<Rightarrow> control" where
  "catch_block c retryCount error =
     (case error of
        APIError e \<Rightarrow> Throw (APIError e)
      | Other x \<Rightarrow>
          if instanceof_Error x \<and> exn_name x = ''AbortError'' then
            Throw (APIError (VaultixAPIError_new (timeout_payload c) 408))
          else if int retryCount < maxRetries c then Retry (getRetryDelay retryCount)
          else Throw (APIError (VaultixAPIError_new (network_error_payload x) 0)))"

definition attempt :: "VaultixClient \<Rightarrow> nat \<Rightarrow> outcome \<Rightarrow> control" where
  "attempt c retryCount out =
     (case try_block c retryCount out of
        Throw e \<Rightarrow> catch_block c retryCount e
      | Return json \<Rightarrow> Return json
      | Retry ms \<Rightarrow> Retry ms)"

text \<open>
  What a call of \<open>request\<close> leaves behind: the client object after the call, the effects
  in order (each \<open>fetch\<close> and each \<open>sleep\<close>), and how the returned promise settles
  (\<open>Inl\<close>: rejected with the thrown value, \<open>Inr\<close>: resolved with the parsed body).
\<close>

datatype effect = Fetch fetch_call | Sleep int

record completion =
  this_after :: VaultixClient
  effects :: "effect list"
  settled :: "thrown + jsval"

text \<open>
  \<open>request\<close>. The network is \<open>net\<close>: \<open>net k\<close> is how the \<open>k\<close>-th \<open>fetch\<close> issued from here on
  settles, and \<open>later net\<close> is the network once the first of them has settled. The client
  is threaded through the call as explicit state.
\<close>

definition later :: "(nat \<Rightarrow> outcome) \<Rightarrow> nat \<Rightarrow> outcome" where
  "later net k = net (Suc k)"

function request ::
    "(string \<Rightarrow> string \<Rightarrow> bool) \<Rightarrow> (nat \<Rightarrow> outcome) \<Rightarrow> VaultixClient \<Rightarrow> http_method \<Rightarrow> string
       \<Rightarrow> (string \<times> jsval) list option \<Rightarrow> nat \<Rightarrow> completion" where
  "request parses net c method path data retryCount =
     (case URL_new parses path (baseUrl c) of
        Inl e \<Rightarrow> \<lparr> this_after = c, effects = [], settled = Inl (Other e) \<rparr>
      | Inr url0 \<Rightarrow>
          (case attempt c retryCount (net 0) of
             Return json \<Rightarrow>
               \<lparr> this_after = c, effects = [Fetch (build_fetch c url0 method data)],
                 settled = Inr json \<rparr>
           | Throw e \<Rightarrow>
               \<lparr> this_after = c, effects = [Fetch (build_fetch c url0 method data)],
                 settled = Inl e \<rparr>
           | Retry ms \<Rightarrow>
               (let r = request parses (later net) c method path data (Suc retryCount)
                in r \<lparr> effects := Fetch (build_fetch c url0 method data) # Sleep ms # effects r \<rparr>)))"
  by pat_completeness auto
termination
  by (relation "measure (\<lambda>(parses, net, c, method, path, data, retryCount).
                           nat (maxRetries c - int retryCount))")
     (auto simp: attempt_def try_block_def catch_block_def shouldRetry_def
           split: outcome.splits response_body.splits if_splits thrown.splits)

declare request.simps [simp del]

definition get_request ::
    "(string \<Rightarrow> string \<Rightarrow> bool) \<Rightarrow> (nat \<Rightarrow> outcome) \<Rightarrow> VaultixClient \<Rightarrow> string
       \<Rightarrow> (string \<times> jsval) list option \<Rightarrow> completion" where
  "get_request parses net c path params = request parses net c GET path params 0"

definition post_request ::
    "(string \<Rightarrow> string \<Rightarrow> bool) \<Rightarrow> (nat \<Rightarrow> outcome) \<Rightarrow> VaultixClient \<Rightarrow> string
       \<Rightarrow> (string \<times> jsval) list option \<Rightarrow> completion" where
  "post_request parses net c path data = request parses net c POST path data 0"

definition put_request ::
    "(string \<Rightarrow> string \<Rightarrow> bool) \<Rightarrow> (nat \<Rightarrow> outcome) \<Rightarrow> VaultixClient \<Rightarrow> string
       \<Rightarrow> (string \<times> jsval) list option \<Rightarrow> completion" where
  "put_request parses net c path data = request parses net c PUT path data 0"

definition delete_request ::
    "(string \<Rightarrow> string \<Rightarrow> bool) \<Rightarrow> (nat \<Rightarrow> outcome) \<Rightarrow> VaultixClient \<Rightarrow> string \<Rightarrow> completion" where
  "delete_request parses net c path = request parses net c DELETE path None 0"

section \<open>client.ts: the timeout timer\<close>

text \<open>
  Lines 79--80, 91 and 94. One attempt in time: \<open>fetch_ms\<close> is how long \<open>fetch\<close> takes
  to settle when left alone, \<open>settles\<close> is how it then settles, and \<open>body_ms\<close> is how long
  \<open>response.json()\<close> takes after that. The timer set at line 80 calls
  \<open>controller.abort()\<close> once \<open>timeout\<close> milliseconds have passed with \<open>fetch\<close> still pending,
  and \<open>fetch\<close> then rejects with the error named \<open>AbortError\<close>. Line 94 clears the timer as
  soon as \<open>fetch\<close> has settled, before the body is read, so \<open>body_ms\<close> plays no part. A
  \<open>fetch\<close> that settles in the very millisecond the timer is due is taken to settle first.
\<close>

record timed =
  fetch_ms :: int
  body_ms :: int
  settles :: outcome

definition under_timer :: "VaultixClient \<Rightarrow> (nat \<Rightarrow> timed) \<Rightarrow> nat \<Rightarrow> outcome" where
  "under_timer c tnet k =
     (if timeout c < fetch_ms (tnet k)
      then Rejects (JsError ''AbortError'' ''This operation was aborted'')
      else settles (tnet k))"

section \<open>Observing a call\<close>

text \<open>The argument of every \<open>fetch\<close> of a call, once the URL has parsed.\<close>

definition fetch_of ::
    "VaultixClient \<Rightarrow> http_method \<Rightarrow> string \<Rightarrow> (string \<times> jsval) list option \<Rightarrow> fetch_call" where
  "fetch_of c method path data =
     build_fetch c \<lparr> url_path = path, url_base = baseUrl c, searchParams = [] \<rparr> method data"

fun fetches :: "effect list \<Rightarrow> fetch_call list" where
  "fetches [] = []"
| "fetches (Fetch f # es) = f # fetches es"
| "fetches (Sleep ms # es) = fetches es"

fun sleeps :: "effect list \<Rightarrow> int list" where
  "sleeps [] = []"
| "sleeps (Fetch f # es) = sleeps es"
| "sleeps (Sleep ms # es) = ms # sleeps es"

text \<open>
  The failures the retry policy is about: a response with status 429 or at least 500, and
  a rejection of \<open>fetch\<close> other than the abort of the timeout timer.
\<close>

fun is_timeout :: "js_exn \<Rightarrow> bool" where
  "is_timeout (JsError n m) = (n = ''AbortError'')"
| "is_timeout NonError = False"

fun retryable :: "outcome \<Rightarrow> bool" where
  "retryable (Responds status b) = (status \<ge> 500 \<or> status = 429)"
| "retryable (Rejects e) = (\<not> is_timeout e)"

text \<open>Networks and clients for the concrete runs below.\<close>

definition any_url :: "string \<Rightarrow> string \<Rightarrow> bool" where
  "any_url path base = True"

fun answers :: "outcome list \<Rightarrow> outcome \<Rightarrow> nat \<Rightarrow> outcome" where
  "answers [] final k = final"
| "answers (out # outs) final 0 = out"
| "answers (out # outs) final (Suc k) = answers outs final k"

text \<open>
  No URL parser accepts a base without a scheme; \<open>schemed\<close> is the most forgiving parser
  of that kind: it accepts whenever the base or the path has a colon at all.
\<close>

definition schemed :: "string \<Rightarrow> string \<Rightarrow> bool" where
  "schemed path base = (CHR '':'' \<in> set (path @ base))"

definition every_time :: "timed \<Rightarrow> nat \<Rightarrow> timed" where
  "every_time a k = a"

definition test_client :: "int \<Rightarrow> VaultixClient" where
  "test_client m =
     \<lparr> secretKey = ''sk_test_abc'', baseUrl = DEFAULT_BASE_URL,
       timeout = DEFAULT_TIMEOUT, maxRetries = m \<rparr>"

definition key_only :: "string \<Rightarrow> VaultixConfig" where
  "key_only key =
     \<lparr> config_secretKey = Some key, config_baseUrl = None,
       config_timeout = None, config_maxRetries = None \<rparr>"

definition zero_config :: VaultixConfig where
  "zero_config =
     \<lparr> config_secretKey = Some ''sk_live_abc'', config_baseUrl = Some [],
       config_timeout = Some 0, config_maxRetries = Some 0 \<rparr>"

definition bad_base_config :: VaultixConfig where
  "bad_base_config =
     \<lparr> config_secretKey = Some ''sk_test_abc'', config_baseUrl = Some ''not a url'',
       config_timeout = None, config_maxRetries = None \<rparr>"

definition slow_fetch :: timed where
  "slow_fetch = \<lparr> fetch_ms = 30001, body_ms = 0, settles = Responds 200 (Json (JObj [])) \<rparr>"

definition slow_body :: timed where
  "slow_body = \<lparr> fetch_ms = 10, body_ms = 60000, settles = Responds 200 (Json (JObj [])) \<rparr>"

section \<open>One pass through the body of \<open>request\<close>\<close>

lemma is_timeout_iff:
  "is_timeout e = (instanceof_Error e \<and> exn_name e = ''AbortError'')"
  by (cases e) simp_all

lemma attempt_retryable_below:
  "retryable out \<Longrightarrow> int rc < maxRetries c \<Longrightarrow> attempt c rc out = Retry (getRetryDelay rc)"
  by (cases out rule: retryable.cases)
     (auto simp: attempt_def try_block_def catch_block_def shouldRetry_def response_ok_def
                 is_timeout_iff
           split: response_body.splits)

lemma attempt_retryable_exhausted:
  "retryable out \<Longrightarrow> \<not> int rc < maxRetries c \<Longrightarrow> \<exists>e. attempt c rc out = Throw (APIError e)"
  by (cases out rule: retryable.cases)
     (auto simp: attempt_def try_block_def catch_block_def shouldRetry_def response_ok_def
                 is_timeout_iff
           split: response_body.splits)

lemma attempt_Retry:
  "attempt c rc out = Retry ms \<Longrightarrow> ms = getRetryDelay rc \<and> int rc < maxRetries c"
  by (auto simp: attempt_def try_block_def catch_block_def shouldRetry_def
           split: outcome.splits response_body.splits if_splits thrown.splits)

section \<open>Unfolding \<open>request\<close> by how its first pass ends\<close>

lemma request_no_url:
  "\<not> parses path (baseUrl c) \<Longrightarrow>
   request parses net c meth path data rc =
     \<lparr> this_after = c, effects = [],
       settled = Inl (Other (JsError ''TypeError'' ''Invalid URL'')) \<rparr>"
  by (subst request.simps) (simp add: URL_new_def)

lemma request_Return:
  "parses path (baseUrl c) \<Longrightarrow> attempt c rc (net 0) = Return json \<Longrightarrow>
   request parses net c meth path data rc =
     \<lparr> this_after = c, effects = [Fetch (fetch_of c meth path data)], settled = Inr json \<rparr>"
  by (subst request.simps) (simp add: URL_new_def fetch_of_def)

lemma request_Throw:
  "parses path (baseUrl c) \<Longrightarrow> attempt c rc (net 0) = Throw e \<Longrightarrow>
   request parses net c meth path data rc =
     \<lparr> this_after = c, effects = [Fetch (fetch_of c meth path data)], settled = Inl e \<rparr>"
  by (subst request.simps) (simp add: URL_new_def fetch_of_def)

lemma request_Retry:
  "parses path (baseUrl c) \<Longrightarrow> attempt c rc (net 0) = Retry ms \<Longrightarrow>
   request parses net c meth path data rc =
     (request parses (later net) c meth path data (Suc rc))
       \<lparr> effects := Fetch (fetch_of c meth path data) # Sleep ms #
                     effects (request parses (later net) c meth path data (Suc rc)) \<rparr>"
  by (subst request.simps) (simp add: URL_new_def fetch_of_def Let_def)

lemma URL_new_parses:
  "parses path base \<Longrightarrow>
   URL_new parses path base = Inr \<lparr> url_path = path, url_base = base, searchParams = [] \<rparr>"
  by (simp add: URL_new_def)

section \<open>Backoff\<close>

lemma upt_from: "[i ..< i + Suc n] = i # [Suc i ..< Suc i + n]"
  by (simp add: upt_conv_Cons del: upt_Suc)

text \<open>The sleeps of a call, whatever the network does and whether or not the URL parses.\<close>

lemma sleeps_request:
  "sleeps (effects (request parses net c meth path data rc)) =
     map (\<lambda>n. min (1000 * 2 ^ n) 10000)
       [rc ..< rc + length (sleeps (effects (request parses net c meth path data rc)))]"
proof (induction parses net c meth path data rc rule: request.induct)
  case (1 parses net c meth path data rc)
  show ?case
  proof (cases "parses path (baseUrl c)")
    case False
    then show ?thesis by (simp add: request_no_url)
  next
    case True
    show ?thesis
    proof (cases "attempt c rc (net 0)")
      case (Return json)
      with True show ?thesis by (simp add: request_Return)
    next
      case (Throw e)
      with True show ?thesis by (simp add: request_Throw)
    next
      case (Retry ms)
      have ms: "ms = getRetryDelay rc"
        using attempt_Retry [OF Retry] by simp
      have url: "URL_new parses path (baseUrl c) =
                   Inr \<lparr> url_path = path, url_base = baseUrl c, searchParams = [] \<rparr>"
        using True by (rule URL_new_parses)
      note IH = "1.IH" [OF url Retry]
      let ?r = "request parses (later net) c meth path data (Suc rc)"
      let ?n = "length (sleeps (effects ?r))"
      have unfold: "sleeps (effects (request parses net c meth path data rc)) =
                      ms # sleeps (effects ?r)"
        using True Retry by (simp add: request_Retry)
      also have "\<dots> = ms # map (\<lambda>n. min (1000 * 2 ^ n) 10000) [Suc rc ..< Suc rc + ?n]"
        using IH by (rule arg_cong [where f = "(#) ms"])
      also have "\<dots> = min (1000 * 2 ^ rc) 10000 #
                        map (\<lambda>n. min (1000 * 2 ^ n) 10000) [Suc rc ..< Suc rc + ?n]"
        by (simp add: ms getRetryDelay_def)
      also have "\<dots> = map (\<lambda>n. min (1000 * 2 ^ n) 10000) [rc ..< rc + Suc ?n]"
        by (simp only: upt_from list.map)
      finally have eq: "sleeps (effects (request parses net c meth path data rc)) =
                          map (\<lambda>n. min (1000 * 2 ^ n) 10000) [rc ..< rc + Suc ?n]" .
      have len: "length (sleeps (effects (request parses net c meth path data rc))) = Suc ?n"
        unfolding unfold by simp
      show ?thesis
        unfolding len by (rule eq)
    qed
  qed
qed

section \<open>The retry budget\<close>

lemma all_retryable_run:
  assumes url: "parses path (baseUrl c)"
  shows "nat (maxRetries c - int rc) = n \<Longrightarrow> (\<forall>k\<le>n. retryable (net k)) \<Longrightarrow>
         length (fetches (effects (request parses net c meth path data rc))) = Suc n \<and>
         length (sleeps (effects (request parses net c meth path data rc))) = n \<and>
         (\<exists>e. settled (request parses net c meth path data rc) = Inl (APIError e))"
proof (induction n arbitrary: net rc)
  case 0
  then have "\<not> int rc < maxRetries c" and "retryable (net 0)" by simp_all
  then obtain e where "attempt c rc (net 0) = Throw (APIError e)"
    using attempt_retryable_exhausted by blast
  then show ?case using url by (simp add: request_Throw)
next
  case (Suc n)
  then have below: "int rc < maxRetries c" and first: "retryable (net 0)" by simp_all
  have step: "attempt c rc (net 0) = Retry (getRetryDelay rc)"
    using first below by (rule attempt_retryable_below)
  have rest: "nat (maxRetries c - int (Suc rc)) = n"
    using Suc.prems(1) by simp
  have "\<forall>k\<le>n. retryable (later net k)"
    using Suc.prems(2) by (simp add: later_def)
  with rest have IH: "length (fetches (effects (request parses (later net) c meth path data (Suc rc)))) = Suc n \<and>
         length (sleeps (effects (request parses (later net) c meth path data (Suc rc)))) = n \<and>
         (\<exists>e. settled (request parses (later net) c meth path data (Suc rc)) = Inl (APIError e))"
    by (rule Suc.IH)
  show ?case
    unfolding request_Retry [where parses = parses and path = path and c = c and net = net,
        OF url step]
    using IH by simp
qed

text \<open>
  C1. Once the URL has parsed: a response with status 429 or at least 500, or a transport
  failure, met while the retry count is below \<open>maxRetries\<close> is not thrown; the executor
  sleeps the backoff delay and calls itself again with the count raised by one. When every
  attempt ends that way, the call makes \<open>maxRetries - retryCount + 1\<close> fetches (one when
  the count has already reached the maximum), sleeps between them, and only then rejects,
  with a \<open>VaultixAPIError\<close>.
\<close>

theorem retry_until_budget_exhausted:
  assumes "parses path (baseUrl c)"
  shows "(retryable (net 0) \<and> int rc < maxRetries c \<longrightarrow>
            request parses net c meth path data rc =
              (request parses (later net) c meth path data (Suc rc))
                \<lparr> effects := Fetch (fetch_of c meth path data) # Sleep (getRetryDelay rc) #
                     effects (request parses (later net) c meth path data (Suc rc)) \<rparr>)
       \<and> ((\<forall>k \<le> nat (maxRetries c - int rc). retryable (net k)) \<longrightarrow>
            length (fetches (effects (request parses net c meth path data rc)))
              = nat (maxRetries c - int rc) + 1
          \<and> length (sleeps (effects (request parses net c meth path data rc)))
              = nat (maxRetries c - int rc)
          \<and> (\<exists>e. settled (request parses net c meth path data rc) = Inl (APIError e)))"
proof (intro conjI impI)
  assume "retryable (net 0) \<and> int rc < maxRetries c"
  then have "attempt c rc (net 0) = Retry (getRetryDelay rc)"
    by (simp add: attempt_retryable_below)
  with assms show "request parses net c meth path data rc =
              (request parses (later net) c meth path data (Suc rc))
                \<lparr> effects := Fetch (fetch_of c meth path data) # Sleep (getRetryDelay rc) #
                     effects (request parses (later net) c meth path data (Suc rc)) \<rparr>"
    by (rule request_Retry)
next
  assume all: "\<forall>k \<le> nat (maxRetries c - int rc). retryable (net k)"
  note run = all_retryable_run [where parses = parses and path = path and c = c
      and meth = meth and data = data, OF assms refl all]
  show "length (fetches (effects (request parses net c meth path data rc)))
              = nat (maxRetries c - int rc) + 1"
    using run by simp
  show "length (sleeps (effects (request parses net c meth path data rc)))
              = nat (maxRetries c - int rc)"
    using run by simp
  show "\<exists>e. settled (request parses net c meth path data rc) = Inl (APIError e)"
    using run by simp
qed

theorem retry_until_budget_exhausted_witness:
  "any_url ''/v1/charges'' (baseUrl (test_client 2))
   \<and> retryable (answers [] (Responds 503 (Json (JObj []))) 0)
   \<and> int 0 < maxRetries (test_client 2)
   \<and> length (fetches (effects (request any_url (answers [] (Responds 503 (Json (JObj []))))
         (test_client 2) POST ''/v1/charges'' None 0))) = 3
   \<and> sleeps (effects (request any_url (answers [] (Responds 503 (Json (JObj []))))
         (test_client 2) POST ''/v1/charges'' None 0)) = [1000, 2000]
   \<and> settled (request any_url (answers [] (Responds 503 (Json (JObj []))))
         (test_client 2) POST ''/v1/charges'' None 0)
        = Inl (APIError (VaultixAPIError_new unknown_error_payload 503))"
proof -
  let ?net = "answers [] (Responds 503 (Json (JObj [])))"
  let ?r = "request any_url ?net (test_client 2) POST ''/v1/charges'' None 0"
  have url: "any_url ''/v1/charges'' (baseUrl (test_client 2))"
    by (simp add: any_url_def)
  have first: "retryable (?net 0)" by simp
  have below: "int 0 < maxRetries (test_client 2)" by (simp add: test_client_def)
  have all: "\<forall>k \<le> nat (maxRetries (test_client 2) - int 0). retryable (?net k)" by simp
  note inst = retry_until_budget_exhausted [where parses = any_url and path = "''/v1/charges''"
      and c = "test_client 2" and net = ?net and rc = 0 and meth = POST and data = None, OF url]
  from inst all have "length (fetches (effects ?r)) = nat (maxRetries (test_client 2) - int 0) + 1"
    by blast
  then have count: "length (fetches (effects ?r)) = 3"
    by (simp add: test_client_def)
  have sl: "sleeps (effects ?r) = [1000, 2000]"
    by code_simp
  have st: "settled ?r = Inl (APIError (VaultixAPIError_new unknown_error_payload 503))"
    by code_simp
  show ?thesis using url first below count sl st by blast
qed

section \<open>Backoff between attempts\<close>

text \<open>
  A call that got past the URL alternates: a fetch, the backoff sleep for the current
  retry count, a fetch, the sleep for the next count, and so on, ending with a fetch.
\<close>

lemma effects_request:
  assumes "parses path (baseUrl c)"
  shows "effects (request parses net c meth path data rc) =
           concat (map (\<lambda>n. [Fetch (fetch_of c meth path data), Sleep (min (1000 * 2 ^ n) 10000)])
                    [rc ..< rc + length (sleeps (effects (request parses net c meth path data rc)))])
           @ [Fetch (fetch_of c meth path data)]"
  using assms
proof (induction parses net c meth path data rc rule: request.induct)
  case (1 parses net c meth path data rc)
  note url = "1.prems"
  show ?case
  proof (cases "attempt c rc (net 0)")
    case (Return json)
    show ?thesis
      unfolding request_Return [where parses = parses and net = net, OF url Return] by simp
  next
    case (Throw e)
    show ?thesis
      unfolding request_Throw [where parses = parses and net = net, OF url Throw] by simp
  next
    case (Retry ms)
    have ms: "ms = min (1000 * 2 ^ rc) 10000"
      using attempt_Retry [OF Retry] by (simp add: getRetryDelay_def)
    have parsed: "URL_new parses path (baseUrl c) =
                   Inr \<lparr> url_path = path, url_base = baseUrl c, searchParams = [] \<rparr>"
      using url by (rule URL_new_parses)
    define r' where "r' = request parses (later net) c meth path data (Suc rc)"
    define n' where "n' = length (sleeps (effects r'))"
    note IH = "1.IH" [OF parsed Retry url, folded r'_def, folded n'_def]
    have unfold: "request parses net c meth path data rc =
                    r' \<lparr> effects := Fetch (fetch_of c meth path data) # Sleep ms # effects r' \<rparr>"
      unfolding r'_def using url Retry by (rule request_Retry)
    have e: "effects (request parses net c meth path data rc) =
               Fetch (fetch_of c meth path data) # Sleep ms # effects r'"
      by (simp add: unfold)
    have len: "length (sleeps (effects (request parses net c meth path data rc))) = Suc n'"
      by (simp add: e n'_def)
    show ?thesis
      unfolding len upt_from unfolding e by (simp add: ms IH)
  qed
qed

text \<open>
  C2. The sleeps of a call, in order, last \<open>min (1000 * 2^n) 10000\<close> milliseconds for \<open>n\<close>
  running from the retry count of the call upwards. Once the URL has parsed, each of them
  stands between two fetches: the effects are a fetch, the sleep for the current count, a
  fetch, the sleep for the next count, and so on up to the last fetch. A retryable
  failure met at retry count \<open>n\<close> below the budget is followed by the sleep of
  \<open>min (1000 * 2^n) 10000\<close> milliseconds and then by attempt \<open>n + 1\<close>; when every attempt
  fails that way the call sleeps once for each count from its own up to \<open>maxRetries\<close>.
\<close>

theorem backoff_delays:
  "sleeps (effects (request parses net c meth path data rc)) =
     map (\<lambda>n. min (1000 * 2 ^ n) 10000)
       [rc ..< rc + length (sleeps (effects (request parses net c meth path data rc)))]
   \<and> (parses path (baseUrl c) \<longrightarrow>
        effects (request parses net c meth path data rc) =
          concat (map (\<lambda>n. [Fetch (fetch_of c meth path data), Sleep (min (1000 * 2 ^ n) 10000)])
                   [rc ..< rc + length (sleeps (effects (request parses net c meth path data rc)))])
          @ [Fetch (fetch_of c meth path data)])
   \<and> (parses path (baseUrl c) \<and> retryable (net 0) \<and> int rc < maxRetries c \<longrightarrow>
        effects (request parses net c meth path data rc) =
          Fetch (fetch_of c meth path data) # Sleep (min (1000 * 2 ^ rc) 10000) #
          effects (request parses (later net) c meth path data (Suc rc)))
   \<and> (parses path (baseUrl c) \<and> (\<forall>k \<le> nat (maxRetries c - int rc). retryable (net k)) \<longrightarrow>
        sleeps (effects (request parses net c meth path data rc)) =
          map (\<lambda>n. min (1000 * 2 ^ n) 10000) [rc ..< rc + nat (maxRetries c - int rc)])"
proof (intro conjI impI)
  show "sleeps (effects (request parses net c meth path data rc)) =
     map (\<lambda>n. min (1000 * 2 ^ n) 10000)
       [rc ..< rc + length (sleeps (effects (request parses net c meth path data rc)))]"
    by (rule sleeps_request)
next
  assume "parses path (baseUrl c)"
  then show "effects (request parses net c meth path data rc) =
          concat (map (\<lambda>n. [Fetch (fetch_of c meth path data), Sleep (min (1000 * 2 ^ n) 10000)])
                   [rc ..< rc + length (sleeps (effects (request parses net c meth path data rc)))])
          @ [Fetch (fetch_of c meth path data)]"
    by (rule effects_request)
next
  assume a: "parses path (baseUrl c) \<and> retryable (net 0) \<and> int rc < maxRetries c"
  then have url: "parses path (baseUrl c)" by simp
  from a have step: "attempt c rc (net 0) = Retry (getRetryDelay rc)"
    by (simp add: attempt_retryable_below)
  show "effects (request parses net c meth path data rc) =
          Fetch (fetch_of c meth path data) # Sleep (min (1000 * 2 ^ rc) 10000) #
          effects (request parses (later net) c meth path data (Suc rc))"
    unfolding request_Retry [where parses = parses and net = net and path = path and c = c,
        OF url step]
    by (simp add: getRetryDelay_def)
next
  assume a: "parses path (baseUrl c) \<and> (\<forall>k \<le> nat (maxRetries c - int rc). retryable (net k))"
  then have url: "parses path (baseUrl c)"
    and all: "\<forall>k \<le> nat (maxRetries c - int rc). retryable (net k)" by simp_all
  have len: "length (sleeps (effects (request parses net c meth path data rc))) =
               nat (maxRetries c - int rc)"
    using all_retryable_run [where parses = parses and path = path and c = c and net = net
        and meth = meth and data = data, OF url refl all] by simp
  show "sleeps (effects (request parses net c meth path data rc)) =
          map (\<lambda>n. min (1000 * 2 ^ n) 10000) [rc ..< rc + nat (maxRetries c - int rc)]"
    using sleeps_request [of parses net c meth path data rc] unfolding len .
qed

theorem backoff_delays_witness:
  "any_url ''/v1/charges'' (baseUrl (test_client 5))
   \<and> retryable (answers [] (Responds 503 (Json (JObj []))) 0)
   \<and> int 0 < maxRetries (test_client 5)
   \<and> sleeps (effects (request any_url (answers [] (Responds 503 (Json (JObj []))))
         (test_client 5) POST ''/v1/charges'' None 0))
       = map (\<lambda>n. min (1000 * 2 ^ n) 10000) [0 ..< 0 + nat (maxRetries (test_client 5) - int 0)]
   \<and> sleeps (effects (request any_url (answers [] (Responds 503 (Json (JObj []))))
         (test_client 5) POST ''/v1/charges'' None 0))
       = [1000, 2000, 4000, 8000, 10000]
   \<and> effects (request any_url (answers [] (Responds 503 (Json (JObj []))))
         (test_client 5) POST ''/v1/charges'' None 0)
       = Fetch (fetch_of (test_client 5) POST ''/v1/charges'' None) # Sleep (min (1000 * 2 ^ 0) 10000) #
         effects (request any_url (later (answers [] (Responds 503 (Json (JObj [])))))
           (test_client 5) POST ''/v1/charges'' None (Suc 0))"
proof -
  let ?net = "answers [] (Responds 503 (Json (JObj [])))"
  let ?r = "request any_url ?net (test_client 5) POST ''/v1/charges'' None 0"
  have url: "any_url ''/v1/charges'' (baseUrl (test_client 5))"
    by (simp add: any_url_def)
  have first: "retryable (?net 0)" by simp
  have below: "int 0 < maxRetries (test_client 5)" by (simp add: test_client_def)
  have all: "\<forall>k \<le> nat (maxRetries (test_client 5) - int 0). retryable (?net k)" by simp
  note inst = backoff_delays [where parses = any_url and path = "''/v1/charges''"
      and c = "test_client 5" and net = ?net and rc = 0 and meth = POST and data = None]
  from inst url all have whole: "sleeps (effects ?r) =
      map (\<lambda>n. min (1000 * 2 ^ n) 10000) [0 ..< 0 + nat (maxRetries (test_client 5) - int 0)]"
    by blast
  from inst url first below have step: "effects ?r =
      Fetch (fetch_of (test_client 5) POST ''/v1/charges'' None) # Sleep (min (1000 * 2 ^ 0) 10000) #
      effects (request any_url (later ?net) (test_client 5) POST ''/v1/charges'' None (Suc 0))"
    by blast
  have vals: "sleeps (effects ?r) = [1000, 2000, 4000, 8000, 10000]"
    by code_simp
  show ?thesis using url first below whole vals step by blast
qed

section \<open>Timeouts\<close>

lemma attempt_timeout:
  "attempt c rc (Rejects (JsError ''AbortError'' msg)) =
     Throw (APIError (VaultixAPIError_new (timeout_payload c) 408))"
  by (simp add: attempt_def try_block_def catch_block_def)

lemma under_timer_late:
  "timeout c < fetch_ms (tnet k) \<Longrightarrow>
   under_timer c tnet k = Rejects (JsError ''AbortError'' ''This operation was aborted'')"
  by (simp add: under_timer_def)

text \<open>
  C3, as the code has it. When the fetch of an attempt is still pending once the
  configured timeout has passed, the call ends there: it has made that one fetch, sleeps
  no more, and rejects with a \<open>VaultixAPIError\<close> of code \<open>timeout\<close>, type \<open>api_error\<close> and
  status 408, whatever the retry count and the budget left.
\<close>

theorem timeout_fails_without_retry:
  assumes "parses path (baseUrl c)"
      and "timeout c < fetch_ms (tnet 0)"
  shows "request parses (under_timer c tnet) c meth path data rc =
           \<lparr> this_after = c, effects = [Fetch (fetch_of c meth path data)],
             settled = Inl (APIError
               \<lparr> name = ''VaultixAPIError'',
                 message = ''Request timed out after '' @ string_of_int (timeout c) @ ''ms'',
                 type = JStr ''api_error'', code = JStr ''timeout'',
                 param = JUndefined, docUrl = JUndefined, statusCode = 408 \<rparr>) \<rparr>"
proof -
  have "attempt c rc (under_timer c tnet 0) =
          Throw (APIError (VaultixAPIError_new (timeout_payload c) 408))"
    using assms(2) by (simp add: under_timer_late attempt_timeout)
  then have "request parses (under_timer c tnet) c meth path data rc =
           \<lparr> this_after = c, effects = [Fetch (fetch_of c meth path data)],
             settled = Inl (APIError (VaultixAPIError_new (timeout_payload c) 408)) \<rparr>"
    by (rule request_Throw [where parses = parses and net = "under_timer c tnet", OF assms(1)])
  then show ?thesis
    by (simp add: VaultixAPIError_new_def timeout_payload_def)
qed

theorem timeout_fails_without_retry_witness:
  "any_url ''/v1/balance'' (baseUrl (test_client 3))
   \<and> timeout (test_client 3) < fetch_ms (every_time slow_fetch 0)
   \<and> request any_url (under_timer (test_client 3) (every_time slow_fetch))
        (test_client 3) GET ''/v1/balance'' None 0
       = \<lparr> this_after = test_client 3,
           effects = [Fetch (fetch_of (test_client 3) GET ''/v1/balance'' None)],
           settled = Inl (APIError
               \<lparr> name = ''VaultixAPIError'',
                 message = ''Request timed out after 30000ms'',
                 type = JStr ''api_error'', code = JStr ''timeout'',
                 param = JUndefined, docUrl = JUndefined, statusCode = 408 \<rparr>) \<rparr>"
proof -
  have url: "any_url ''/v1/balance'' (baseUrl (test_client 3))"
    by (simp add: any_url_def)
  have late: "timeout (test_client 3) < fetch_ms (every_time slow_fetch 0)"
    by (simp add: test_client_def DEFAULT_TIMEOUT_def every_time_def slow_fetch_def)
  have shown: "string_of_int (timeout (test_client 3)) = ''30000''"
    by (simp add: test_client_def DEFAULT_TIMEOUT_def string_of_int_def)
  note inst = timeout_fails_without_retry [where parses = any_url and path = "''/v1/balance''"
      and c = "test_client 3" and tnet = "every_time slow_fetch" and rc = 0 and meth = GET
      and data = None, OF url late]
  show ?thesis
    using url late inst unfolding shown by simp
qed

text \<open>
  The claim as written fails twice. With three retries left, a first fetch that is still
  pending after the 30000 ms of the timeout is the only fetch of the call: no backoff
  sleep follows and the call rejects. And an attempt whose fetch settles after 10 ms but
  whose body takes 60000 ms to read lasts longer than the timeout, yet resolves with
  the body.
\<close>

theorem timeout_is_retried_counterexample:
  "int 0 < maxRetries (test_client 3)
   \<and> timeout (test_client 3) < fetch_ms slow_fetch
   \<and> length (fetches (effects (request any_url (under_timer (test_client 3) (every_time slow_fetch))
         (test_client 3) GET ''/v1/balance'' None 0))) = 1
   \<and> sleeps (effects (request any_url (under_timer (test_client 3) (every_time slow_fetch))
         (test_client 3) GET ''/v1/balance'' None 0)) = []
   \<and> settled (request any_url (under_timer (test_client 3) (every_time slow_fetch))
         (test_client 3) GET ''/v1/balance'' None 0)
       = Inl (APIError (VaultixAPIError_new (timeout_payload (test_client 3)) 408))
   \<and> timeout (test_client 3) < fetch_ms slow_body + body_ms slow_body
   \<and> settled (request any_url (under_timer (test_client 3) (every_time slow_body))
         (test_client 3) GET ''/v1/balance'' None 0)
       = Inr (JObj [])"
proof -
  let ?c = "test_client 3"
  let ?r = "request any_url (under_timer ?c (every_time slow_fetch)) ?c GET ''/v1/balance'' None 0"
  let ?b = "request any_url (under_timer ?c (every_time slow_body)) ?c GET ''/v1/balance'' None 0"
  have budget: "int 0 < maxRetries ?c"
    by (simp add: test_client_def)
  have late: "timeout ?c < fetch_ms slow_fetch"
    by (simp add: test_client_def DEFAULT_TIMEOUT_def slow_fetch_def)
  have aborted: "under_timer ?c (every_time slow_fetch) 0 =
                   Rejects (JsError ''AbortError'' ''This operation was aborted'')"
    using late by (simp add: under_timer_def every_time_def)
  have run: "?r = \<lparr> this_after = ?c,
                     effects = [Fetch (fetch_of ?c GET ''/v1/balance'' None)],
                     settled = Inl (APIError (VaultixAPIError_new (timeout_payload ?c) 408)) \<rparr>"
    by (rule request_Throw) (simp_all add: any_url_def aborted attempt_timeout)
  have long: "timeout ?c < fetch_ms slow_body + body_ms slow_body"
    by (simp add: test_client_def DEFAULT_TIMEOUT_def slow_body_def)
  have served: "under_timer ?c (every_time slow_body) 0 = Responds 200 (Json (JObj []))"
    by (simp add: under_timer_def every_time_def slow_body_def test_client_def DEFAULT_TIMEOUT_def)
  have ok: "attempt ?c 0 (under_timer ?c (every_time slow_body) 0) = Return (JObj [])"
    unfolding served by (simp add: attempt_def try_block_def response_ok_def)
  have body: "?b = \<lparr> this_after = ?c,
                     effects = [Fetch (fetch_of ?c GET ''/v1/balance'' None)],
                     settled = Inr (JObj []) \<rparr>"
    by (rule request_Return) (simp_all add: any_url_def ok)
  show ?thesis
    unfolding run body using budget late long by simp
qed

section \<open>Construction and test mode\<close>

lemma startsWith_iff: "startsWith s p = (\<exists>rest. s = p @ rest)"
  by (induction s p rule: startsWith.induct) auto

lemma VaultixClient_new_Inr:
  "VaultixClient_new config = Inr c \<Longrightarrow>
   (\<exists>key. config_secretKey config = Some key \<and> startsWith key ''sk_'' \<and> secretKey c = key)"
  by (auto simp: VaultixClient_new_def split: option.splits if_splits)

text \<open>
  What decides construction: a key is rejected exactly when it does not start with \<open>sk_\<close>
  (the empty key included); a key with either documented prefix is accepted.
\<close>

lemma VaultixClient_new_rejects_iff:
  "isl (VaultixClient_new config) =
     (case config_secretKey config of None \<Rightarrow> True | Some key \<Rightarrow> \<not> startsWith key ''sk_'')"
  by (auto simp: VaultixClient_new_def split: option.splits)

lemma startsWith_sk:
  "startsWith key ''sk_live_'' \<or> startsWith key ''sk_test_'' \<Longrightarrow> startsWith key ''sk_''"
  by (auto simp: startsWith_iff)

lemma VaultixClient_new_accepts_prefixed:
  assumes "config_secretKey config = Some key"
      and "startsWith key ''sk_live_'' \<or> startsWith key ''sk_test_''"
  shows "\<not> isl (VaultixClient_new config)"
  using assms(1) startsWith_sk [OF assms(2)] by (simp add: VaultixClient_new_rejects_iff)

text \<open>
  C4. The key \<open>sk_foo\<close> starts with neither \<open>sk_live_\<close> nor \<open>sk_test_\<close>, and the constructor
  returns a client for it.
\<close>

theorem constructor_accepts_sk_foo:
  "\<not> startsWith ''sk_foo'' ''sk_live_'' \<and> \<not> startsWith ''sk_foo'' ''sk_test_''
   \<and> VaultixClient_new (key_only ''sk_foo'') =
       Inr \<lparr> secretKey = ''sk_foo'', baseUrl = ''https://console.velon.app/api'',
             timeout = 30000, maxRetries = 3 \<rparr>"
  by (simp add: VaultixClient_new_def key_only_def DEFAULT_BASE_URL_def DEFAULT_TIMEOUT_def
        DEFAULT_MAX_RETRIES_def)

text \<open>
  C5. For a client that was constructed, and for the SDK object around it, \<open>isTestMode\<close>
  holds exactly when the configured secret key is \<open>sk_test_\<close> followed by anything.
\<close>

theorem isTestMode_iff_test_prefix:
  assumes "Vaultix_new config = Inr v"
  shows "Vaultix_isTestMode v = (\<exists>rest. config_secretKey config = Some (''sk_test_'' @ rest))
       \<and> VaultixClient_new config = Inr (client v)
       \<and> isTestMode (client v) = (\<exists>rest. config_secretKey config = Some (''sk_test_'' @ rest))"
proof -
  from assms have c: "VaultixClient_new config = Inr (client v)"
    by (auto simp: Vaultix_new_def split: sum.splits)
  then obtain key where key: "config_secretKey config = Some key" "secretKey (client v) = key"
    using VaultixClient_new_Inr by blast
  have "isTestMode (client v) = (\<exists>rest. key = ''sk_test_'' @ rest)"
    unfolding isTestMode_def key(2) by (rule startsWith_iff)
  then have "isTestMode (client v) = (\<exists>rest. config_secretKey config = Some (''sk_test_'' @ rest))"
    using key(1) by simp
  with c show ?thesis by (simp add: Vaultix_isTestMode_def)
qed

theorem isTestMode_iff_test_prefix_witness:
  "Vaultix_new (key_only ''sk_test_abc'') = Inr \<lparr> client = test_client 3 \<rparr>
   \<and> Vaultix_isTestMode \<lparr> client = test_client 3 \<rparr>
   \<and> isTestMode (test_client 3)"
proof -
  have made: "Vaultix_new (key_only ''sk_test_abc'') = Inr \<lparr> client = test_client 3 \<rparr>"
    by (simp add: Vaultix_new_def VaultixClient_new_def key_only_def test_client_def
          DEFAULT_MAX_RETRIES_def)
  have "\<exists>rest. config_secretKey (key_only ''sk_test_abc'') = Some (''sk_test_'' @ rest)"
    by (simp add: key_only_def)
  with isTestMode_iff_test_prefix [OF made] made show ?thesis by simp
qed

section \<open>How a call settles\<close>

lemma attempt_Return:
  "attempt c rc out = Return json \<Longrightarrow>
   \<exists>status. out = Responds status (Json json) \<and> response_ok status"
  by (auto simp: attempt_def try_block_def catch_block_def
           split: outcome.splits response_body.splits if_splits)

lemma name_VaultixAPIError_new: "name (VaultixAPIError_new payload status) = ''VaultixAPIError''"
  by (simp add: VaultixAPIError_new_def)

lemma try_block_Throw:
  "try_block c rc out = Throw t \<Longrightarrow>
   (\<exists>x. t = Other x)
   \<or> (\<exists>status json. out = Responds status (Json json) \<and> \<not> response_ok status \<and>
         t = APIError (VaultixAPIError_new
               (if truthy (member json ''error'') then member json ''error''
                else unknown_error_payload) status))"
  by (cases out) (auto simp: try_block_def split: response_body.splits if_splits)

lemma catch_block_APIError: "catch_block c rc (APIError e) = Throw (APIError e)"
  by (simp add: catch_block_def)

lemma attempt_cases:
  "attempt c rc out = Throw t \<Longrightarrow>
   (\<exists>t'. try_block c rc out = Throw t' \<and> catch_block c rc t' = Throw t)"
  by (auto simp: attempt_def split: control.splits)

text \<open>The errors the executor builds, field by field.\<close>

lemma timeout_error_eq:
  "VaultixAPIError_new (timeout_payload c) 408 =
     \<lparr> name = ''VaultixAPIError'',
       message = ''Request timed out after '' @ string_of_int (timeout c) @ ''ms'',
       type = JStr ''api_error'', code = JStr ''timeout'',
       param = JUndefined, docUrl = JUndefined, statusCode = 408 \<rparr>"
  by (simp add: VaultixAPIError_new_def timeout_payload_def)

lemma network_error_eq:
  "VaultixAPIError_new (network_error_payload x) 0 =
     \<lparr> name = ''VaultixAPIError'',
       message = (if instanceof_Error x then exn_message x else ''Network error''),
       type = JStr ''api_error'', code = JStr ''network_error'',
       param = JUndefined, docUrl = JUndefined, statusCode = 0 \<rparr>"
  by (simp add: VaultixAPIError_new_def network_error_payload_def)

lemma unknown_error_eq:
  "VaultixAPIError_new unknown_error_payload status =
     \<lparr> name = ''VaultixAPIError'', message = ''An unknown error occurred'',
       type = JStr ''api_error'', code = JStr ''unknown_error'',
       param = JUndefined, docUrl = JUndefined, statusCode = status \<rparr>"
  by (simp add: VaultixAPIError_new_def unknown_error_payload_def)

lemma catch_block_Other_budget:
  "catch_block c rc (Other x) = Throw t \<Longrightarrow>
   t = APIError (VaultixAPIError_new (timeout_payload c) 408)
   \<or> (\<not> int rc < maxRetries c \<and> t = APIError (VaultixAPIError_new (network_error_payload x) 0))"
  by (simp add: catch_block_def split: if_splits)

lemma attempt_Throw_fields:
  assumes "attempt c rc out = Throw t"
  shows "\<exists>e. t = APIError e \<and>
       (e = \<lparr> name = ''VaultixAPIError'',
               message = ''Request timed out after '' @ string_of_int (timeout c) @ ''ms'',
               type = JStr ''api_error'', code = JStr ''timeout'',
               param = JUndefined, docUrl = JUndefined, statusCode = 408 \<rparr>
        \<or> (\<exists>x. \<not> int rc < maxRetries c \<and>
               e = \<lparr> name = ''VaultixAPIError'',
                     message = (if instanceof_Error x then exn_message x else ''Network error''),
                     type = JStr ''api_error'', code = JStr ''network_error'',
                     param = JUndefined, docUrl = JUndefined, statusCode = 0 \<rparr>)
        \<or> (\<exists>status json. out = Responds status (Json json) \<and> \<not> response_ok status \<and>
               \<not> truthy (member json ''error'') \<and>
               e = \<lparr> name = ''VaultixAPIError'', message = ''An unknown error occurred'',
                     type = JStr ''api_error'', code = JStr ''unknown_error'',
                     param = JUndefined, docUrl = JUndefined, statusCode = status \<rparr>)
        \<or> (\<exists>status json. out = Responds status (Json json) \<and> \<not> response_ok status \<and>
               truthy (member json ''error'') \<and>
               e = \<lparr> name = ''VaultixAPIError'',
                     message = (if member (member json ''error'') ''message'' = JUndefined then []
                                else String_js (member (member json ''error'') ''message'')),
                     type = member (member json ''error'') ''type'',
                     code = member (member json ''error'') ''code'',
                     param = member (member json ''error'') ''param'',
                     docUrl = member (member json ''error'') ''doc_url'',
                     statusCode = status \<rparr>))"
proof -
  from assms obtain t' where tb: "try_block c rc out = Throw t'"
    and cb: "catch_block c rc t' = Throw t"
    using attempt_cases by blast
  from try_block_Throw [OF tb] show ?thesis
  proof
    assume "\<exists>x. t' = Other x"
    then obtain x where "t' = Other x" ..
    with cb have "t = APIError (VaultixAPIError_new (timeout_payload c) 408)
                \<or> (\<not> int rc < maxRetries c \<and>
                    t = APIError (VaultixAPIError_new (network_error_payload x) 0))"
      using catch_block_Other_budget by blast
    then show ?thesis
      unfolding timeout_error_eq network_error_eq by blast
  next
    assume "\<exists>status json. out = Responds status (Json json) \<and> \<not> response_ok status \<and>
         t' = APIError (VaultixAPIError_new
               (if truthy (member json ''error'') then member json ''error''
                else unknown_error_payload) status)"
    then obtain status json where out: "out = Responds status (Json json)"
      and nok: "\<not> response_ok status"
      and t': "t' = APIError (VaultixAPIError_new
               (if truthy (member json ''error'') then member json ''error''
                else unknown_error_payload) status)"
      by blast
    from cb t' have same: "t = t'"
      by (simp add: catch_block_APIError)
    show ?thesis
    proof (cases "truthy (member json ''error'')")
      case True
      with same t' have "t = APIError (VaultixAPIError_new (member json ''error'') status)"
        by simp
      then have "t = APIError \<lparr> name = ''VaultixAPIError'',
                     message = (if member (member json ''error'') ''message'' = JUndefined then []
                                else String_js (member (member json ''error'') ''message'')),
                     type = member (member json ''error'') ''type'',
                     code = member (member json ''error'') ''code'',
                     param = member (member json ''error'') ''param'',
                     docUrl = member (member json ''error'') ''doc_url'',
                     statusCode = status \<rparr>"
        by (simp add: VaultixAPIError_new_def)
      with out nok True show ?thesis by blast
    next
      case False
      with same t' have "t = APIError (VaultixAPIError_new unknown_error_payload status)"
        by simp
      then have "t = APIError \<lparr> name = ''VaultixAPIError'', message = ''An unknown error occurred'',
                     type = JStr ''api_error'', code = JStr ''unknown_error'',
                     param = JUndefined, docUrl = JUndefined, statusCode = status \<rparr>"
        by (simp only: unknown_error_eq)
      with out nok False show ?thesis by blast
    qed
  qed
qed

text \<open>
  A call that got past the URL makes one fetch more than it sleeps, and settles as its
  last pass through the body ends.
\<close>

lemma request_last:
  assumes "parses path (baseUrl c)"
  shows "length (fetches (effects (request parses net c meth path data rc))) =
           Suc (length (sleeps (effects (request parses net c meth path data rc))))
       \<and> (case attempt c (rc + length (sleeps (effects (request parses net c meth path data rc))))
                 (net (length (sleeps (effects (request parses net c meth path data rc))))) of
            Return json \<Rightarrow> settled (request parses net c meth path data rc) = Inr json
          | Throw t \<Rightarrow> settled (request parses net c meth path data rc) = Inl t
          | Retry ms \<Rightarrow> False)"
  using assms
proof (induction parses net c meth path data rc rule: request.induct)
  case (1 parses net c meth path data rc)
  note url = "1.prems"
  show ?case
  proof (cases "attempt c rc (net 0)")
    case (Return json)
    show ?thesis
      unfolding request_Return [where parses = parses and net = net, OF url Return]
      by (simp add: Return)
  next
    case (Throw e)
    show ?thesis
      unfolding request_Throw [where parses = parses and net = net, OF url Throw]
      by (simp add: Throw)
  next
    case (Retry ms)
    have parsed: "URL_new parses path (baseUrl c) =
                   Inr \<lparr> url_path = path, url_base = baseUrl c, searchParams = [] \<rparr>"
      using url by (rule URL_new_parses)
    define r' where "r' = request parses (later net) c meth path data (Suc rc)"
    note IH = "1.IH" [OF parsed Retry url, folded r'_def]
    have unfold: "request parses net c meth path data rc =
                    r' \<lparr> effects := Fetch (fetch_of c meth path data) # Sleep ms # effects r' \<rparr>"
      unfolding r'_def using url Retry by (rule request_Retry)
    have s: "sleeps (effects (request parses net c meth path data rc)) = ms # sleeps (effects r')"
      by (simp add: unfold)
    have f: "fetches (effects (request parses net c meth path data rc)) =
               fetch_of c meth path data # fetches (effects r')"
      by (simp add: unfold)
    have st: "settled (request parses net c meth path data rc) = settled r'"
      by (simp add: unfold)
    have idx: "rc + length (ms # sleeps (effects r')) = Suc rc + length (sleeps (effects r'))"
      by simp
    have nxt: "net (length (ms # sleeps (effects r'))) = later net (length (sleeps (effects r')))"
      by (simp add: later_def)
    have len: "length (fetch_of c meth path data # fetches (effects r')) =
                 Suc (length (ms # sleeps (effects r')))"
      using IH by simp
    show ?thesis
      unfolding s f st idx nxt using len IH by blast
  qed
qed

text \<open>
  C6, as the code has it. Once the URL has parsed, the promise of \<open>request\<close> resolves only
  with the parsed body of an ok response, the last one received. In every other case it
  rejects with a \<open>VaultixAPIError\<close> that carries a status: the timeout error (type
  \<open>api_error\<close>, code \<open>timeout\<close>, status 408); the network error (type \<open>api_error\<close>, code
  \<open>network_error\<close>, status 0), and that one only with the retry budget used up; the unknown
  error (type \<open>api_error\<close>, code \<open>unknown_error\<close>) with the status of the last response when
  its body has no truthy \<open>error\<close> member; or else an error with that status whose type,
  code, message, param and doc URL are whatever the \<open>error\<close> member of that body holds
  under those names, \<open>undefined\<close> where it holds nothing.
\<close>

theorem failures_are_VaultixAPIError:
  assumes "parses path (baseUrl c)"
  shows "fetches (effects (request parses net c meth path data rc)) \<noteq> []
       \<and> (case settled (request parses net c meth path data rc) of
            Inr json \<Rightarrow>
              (\<exists>status. net (length (fetches (effects (request parses net c meth path data rc))) - 1)
                           = Responds status (Json json) \<and> response_ok status)
          | Inl t \<Rightarrow>
              (\<exists>e. t = APIError e \<and>
                 (e = \<lparr> name = ''VaultixAPIError'',
                         message = ''Request timed out after '' @ string_of_int (timeout c) @ ''ms'',
                         type = JStr ''api_error'', code = JStr ''timeout'',
                         param = JUndefined, docUrl = JUndefined, statusCode = 408 \<rparr>
                  \<or> (\<exists>x. \<not> int (rc + (length (fetches (effects (request parses net c meth path data rc))) - 1))
                               < maxRetries c \<and>
                         e = \<lparr> name = ''VaultixAPIError'',
                               message = (if instanceof_Error x then exn_message x
                                          else ''Network error''),
                               type = JStr ''api_error'', code = JStr ''network_error'',
                               param = JUndefined, docUrl = JUndefined, statusCode = 0 \<rparr>)
                  \<or> (\<exists>status json.
                         net (length (fetches (effects (request parses net c meth path data rc))) - 1)
                           = Responds status (Json json) \<and> \<not> response_ok status \<and>
                         \<not> truthy (member json ''error'') \<and>
                         e = \<lparr> name = ''VaultixAPIError'', message = ''An unknown error occurred'',
                               type = JStr ''api_error'', code = JStr ''unknown_error'',
                               param = JUndefined, docUrl = JUndefined, statusCode = status \<rparr>)
                  \<or> (\<exists>status json.
                         net (length (fetches (effects (request parses net c meth path data rc))) - 1)
                           = Responds status (Json json) \<and> \<not> response_ok status \<and>
                         truthy (member json ''error'') \<and>
                         e = \<lparr> name = ''VaultixAPIError'',
                               message = (if member (member json ''error'') ''message'' = JUndefined
                                          then []
                                          else String_js (member (member json ''error'') ''message'')),
                               type = member (member json ''error'') ''type'',
                               code = member (member json ''error'') ''code'',
                               param = member (member json ''error'') ''param'',
                               docUrl = member (member json ''error'') ''doc_url'',
                               statusCode = status \<rparr>))))"
proof -
  let ?r = "request parses net c meth path data rc"
  let ?n = "length (sleeps (effects ?r))"
  note last = request_last [where parses = parses and net = net and meth = meth and data = data
      and rc = rc, OF assms]
  have len: "length (fetches (effects ?r)) = Suc ?n"
    using last by simp
  then have nonempty: "fetches (effects ?r) \<noteq> []"
    by auto
  have idx: "length (fetches (effects ?r)) - 1 = ?n"
    using len by simp
  show ?thesis
  proof (cases "attempt c (rc + ?n) (net ?n)")
    case (Return json)
    then have st: "settled ?r = Inr json" using last by simp
    have "\<exists>status. net ?n = Responds status (Json json) \<and> response_ok status"
      using Return by (rule attempt_Return)
    with nonempty show ?thesis
      unfolding idx st sum.case by (rule conjI)
  next
    case (Throw t)
    then have st: "settled ?r = Inl t" using last by simp
    note fields = attempt_Throw_fields [OF Throw]
    from nonempty fields show ?thesis
      unfolding idx st sum.case by (rule conjI)
  next
    case (Retry ms)
    then show ?thesis using last by simp
  qed
qed

theorem failures_are_VaultixAPIError_witness:
  "any_url ''/v1/charges'' (baseUrl (test_client 3))
   \<and> fetches (effects (request any_url
         (answers [Responds 503 (Json (JObj [])), Rejects (JsError ''TypeError'' ''fetch failed'')]
            (Responds 402 (Json (JObj [(''error'',
               JObj [(''type'', JStr ''invalid_request_error''), (''code'', JStr ''parameter_invalid''),
                     (''message'', JStr ''amount too low''), (''param'', JStr ''amount'')])]))))
         (test_client 3) POST ''/v1/charges'' (Some [(''amount'', JNum 50)]) 0)) \<noteq> []
   \<and> settled (request any_url
         (answers [Responds 503 (Json (JObj [])), Rejects (JsError ''TypeError'' ''fetch failed'')]
            (Responds 402 (Json (JObj [(''error'',
               JObj [(''type'', JStr ''invalid_request_error''), (''code'', JStr ''parameter_invalid''),
                     (''message'', JStr ''amount too low''), (''param'', JStr ''amount'')])]))))
         (test_client 3) POST ''/v1/charges'' (Some [(''amount'', JNum 50)]) 0)
       = Inl (APIError \<lparr> name = ''VaultixAPIError'', message = ''amount too low'',
                type = JStr ''invalid_request_error'', code = JStr ''parameter_invalid'',
                param = JStr ''amount'', docUrl = JUndefined, statusCode = 402 \<rparr>)"
proof -
  let ?net = "answers [Responds 503 (Json (JObj [])), Rejects (JsError ''TypeError'' ''fetch failed'')]
            (Responds 402 (Json (JObj [(''error'',
               JObj [(''type'', JStr ''invalid_request_error''), (''code'', JStr ''parameter_invalid''),
                     (''message'', JStr ''amount too low''), (''param'', JStr ''amount'')])])))"
  let ?r = "request any_url ?net (test_client 3) POST ''/v1/charges'' (Some [(''amount'', JNum 50)]) 0"
  have url: "any_url ''/v1/charges'' (baseUrl (test_client 3))"
    by (simp add: any_url_def)
  note inst = failures_are_VaultixAPIError [where parses = any_url and path = "''/v1/charges''"
      and c = "test_client 3" and net = ?net and rc = 0 and meth = POST
      and data = "Some [(''amount'', JNum 50)]", OF url]
  from inst have made: "fetches (effects ?r) \<noteq> []"
    by (rule conjunct1)
  have st: "settled ?r = Inl (APIError \<lparr> name = ''VaultixAPIError'', message = ''amount too low'',
                type = JStr ''invalid_request_error'', code = JStr ''parameter_invalid'',
                param = JStr ''amount'', docUrl = JUndefined, statusCode = 402 \<rparr>)"
    by code_simp
  show ?thesis using url made st by blast
qed

text \<open>
  The claim as written fails twice. The constructor keeps the base URL \<open>not a url\<close>; no
  parser accepts it, so \<open>request\<close> rejects with the plain \<open>TypeError\<close> of \<open>new URL\<close> before any
  fetch. And a 404 whose body is \<open>{"error": "Not Found"}\<close> reaches the caller as a
  \<open>VaultixAPIError\<close> without type, without code and with an empty message.
\<close>

theorem every_failure_is_structured_counterexample:
  "VaultixClient_new bad_base_config =
     Inr \<lparr> secretKey = ''sk_test_abc'', baseUrl = ''not a url'',
           timeout = 30000, maxRetries = 3 \<rparr>
   \<and> request schemed (answers [] (Responds 200 (Json (JObj []))))
        \<lparr> secretKey = ''sk_test_abc'', baseUrl = ''not a url'', timeout = 30000, maxRetries = 3 \<rparr>
        GET ''/v1/balance'' None 0
       = \<lparr> this_after = \<lparr> secretKey = ''sk_test_abc'', baseUrl = ''not a url'',
                            timeout = 30000, maxRetries = 3 \<rparr>,
           effects = [],
           settled = Inl (Other (JsError ''TypeError'' ''Invalid URL'')) \<rparr>
   \<and> settled (request any_url
         (answers [] (Responds 404 (Json (JObj [(''error'', JStr ''Not Found'')]))))
         (test_client 3) GET ''/v1/charges/ch_1'' None 0)
       = Inl (APIError \<lparr> name = ''VaultixAPIError'', message = [],
                type = JUndefined, code = JUndefined,
                param = JUndefined, docUrl = JUndefined, statusCode = 404 \<rparr>)"
proof -
  let ?c = "\<lparr> secretKey = ''sk_test_abc'', baseUrl = ''not a url'',
              timeout = 30000, maxRetries = 3 \<rparr>"
  have made: "VaultixClient_new bad_base_config = Inr ?c"
    by (simp add: VaultixClient_new_def bad_base_config_def DEFAULT_TIMEOUT_def
          DEFAULT_MAX_RETRIES_def)
  have "\<not> schemed ''/v1/balance'' (baseUrl ?c)"
    by (simp add: schemed_def)
  then have thrown: "request schemed (answers [] (Responds 200 (Json (JObj [])))) ?c
                       GET ''/v1/balance'' None 0
                     = \<lparr> this_after = ?c, effects = [],
                         settled = Inl (Other (JsError ''TypeError'' ''Invalid URL'')) \<rparr>"
    by (rule request_no_url)
  have bare: "settled (request any_url
         (answers [] (Responds 404 (Json (JObj [(''error'', JStr ''Not Found'')]))))
         (test_client 3) GET ''/v1/charges/ch_1'' None 0)
       = Inl (APIError \<lparr> name = ''VaultixAPIError'', message = [],
                type = JUndefined, code = JUndefined,
                param = JUndefined, docUrl = JUndefined, statusCode = 404 \<rparr>)"
    by code_simp
  show ?thesis using made thrown bare by blast
qed

section \<open>The client object\<close>

text \<open>
  C7. The client object after \<open>request\<close>, and after each of the four helpers, is the
  client object before it: no field is written.
\<close>

theorem request_leaves_client_unchanged:
  "this_after (request parses net c meth path data rc) = c
   \<and> this_after (get_request parses net c path data) = c
   \<and> this_after (post_request parses net c path data) = c
   \<and> this_after (put_request parses net c path data) = c
   \<and> this_after (delete_request parses net c path) = c"
proof -
  have main: "this_after (request parses net c meth path data rc) = c" for meth data rc
  proof (induction parses net c meth path data rc rule: request.induct)
    case (1 parses net c meth path data rc)
    show ?case
    proof (cases "parses path (baseUrl c)")
      case False
      then show ?thesis by (simp add: request_no_url)
    next
      case True
      have parsed: "URL_new parses path (baseUrl c) =
                     Inr \<lparr> url_path = path, url_base = baseUrl c, searchParams = [] \<rparr>"
        using True by (rule URL_new_parses)
      show ?thesis
      proof (cases "attempt c rc (net 0)")
        case (Return json)
        show ?thesis
          unfolding request_Return [where parses = parses and net = net, OF True Return] by simp
      next
        case (Throw e)
        show ?thesis
          unfolding request_Throw [where parses = parses and net = net, OF True Throw] by simp
      next
        case (Retry ms)
        show ?thesis
          unfolding request_Retry [where parses = parses and net = net, OF True Retry]
          using "1.IH" [OF parsed Retry] by simp
      qed
    qed
  qed
  show ?thesis
    by (simp add: main get_request_def post_request_def put_request_def delete_request_def)
qed

section \<open>What is sent\<close>

lemma add_query_params_eq:
  "add_query_params u entries =
     u \<lparr> searchParams := searchParams u @
           map (\<lambda>(key, v). (key, String_js v))
               (filter (\<lambda>(key, v). v \<noteq> JUndefined \<and> v \<noteq> JNull) entries) \<rparr>"
proof (induction entries arbitrary: u)
  case Nil
  show ?case by (simp add: add_query_params_def)
next
  case (Cons e entries)
  obtain key v where e: "e = (key, v)" by (cases e)
  have step: "add_query_params u (e # entries) =
                add_query_params (if v \<noteq> JUndefined \<and> v \<noteq> JNull
                                  then searchParams_append u key (String_js v) else u) entries"
    by (simp add: add_query_params_def e)
  show ?case
    unfolding step Cons.IH by (simp add: e searchParams_append_def)
qed

lemma fetches_request:
  assumes "parses path (baseUrl c)"
  shows "fetches (effects (request parses net c meth path data rc)) =
           replicate (length (fetches (effects (request parses net c meth path data rc))))
             (fetch_of c meth path data)"
  using assms
proof (induction parses net c meth path data rc rule: request.induct)
  case (1 parses net c meth path data rc)
  note url = "1.prems"
  show ?case
  proof (cases "attempt c rc (net 0)")
    case (Return json)
    show ?thesis
      unfolding request_Return [where parses = parses and net = net, OF url Return] by simp
  next
    case (Throw e)
    show ?thesis
      unfolding request_Throw [where parses = parses and net = net, OF url Throw] by simp
  next
    case (Retry ms)
    have parsed: "URL_new parses path (baseUrl c) =
                   Inr \<lparr> url_path = path, url_base = baseUrl c, searchParams = [] \<rparr>"
      using url by (rule URL_new_parses)
    define r' where "r' = request parses (later net) c meth path data (Suc rc)"
    note IH = "1.IH" [OF parsed Retry url, folded r'_def]
    have unfold: "request parses net c meth path data rc =
                    r' \<lparr> effects := Fetch (fetch_of c meth path data) # Sleep ms # effects r' \<rparr>"
      unfolding r'_def using url Retry by (rule request_Retry)
    have f: "fetches (effects (request parses net c meth path data rc)) =
               fetch_of c meth path data # fetches (effects r')"
      by (simp add: unfold)
    have "fetch_of c meth path data # fetches (effects r') =
            fetch_of c meth path data #
              replicate (length (fetches (effects r'))) (fetch_of c meth path data)"
      using IH by (rule arg_cong [where f = "(#) (fetch_of c meth path data)"])
    then show ?thesis
      unfolding f by simp
  qed
qed

text \<open>
  C8. Once the URL has parsed, every fetch of a call with a parameter record sends the same
  thing. For GET, the URL's query string gets, in order, exactly the entries whose value is
  neither \<open>undefined\<close> nor \<open>null\<close>, each value converted with \<open>String\<close>, and there is no
  body. For POST, PUT and DELETE nothing is added to the query string and the body is
  the serialised record.
\<close>

theorem query_params_and_body:
  assumes "parses path (baseUrl c)"
  shows "fetches (effects (request parses net c meth path (Some entries) rc)) \<noteq> []
       \<and> fetches (effects (request parses net c meth path (Some entries) rc)) =
           replicate (length (fetches (effects (request parses net c meth path (Some entries) rc))))
             \<lparr> fetch_url =
                 \<lparr> url_path = path, url_base = baseUrl c,
                   searchParams =
                     (if meth = GET
                      then map (\<lambda>(key, v). (key, String_js v))
                             (filter (\<lambda>(key, v). v \<noteq> JUndefined \<and> v \<noteq> JNull) entries)
                      else []) \<rparr>,
               fetch_method = meth,
               fetch_headers =
                 [(''Authorization'', ''Bearer '' @ secretKey c),
                  (''Content-Type'', ''application/json''),
                  (''User-Agent'', ''@vaultix/sdk/1.0.0'')],
               fetch_body = (if meth = GET then None else Some entries) \<rparr>"
proof -
  let ?r = "request parses net c meth path (Some entries) rc"
  have "length (fetches (effects ?r)) = Suc (length (sleeps (effects ?r)))"
    using request_last [where parses = parses and net = net and meth = meth
        and data = "Some entries" and rc = rc, OF assms]
    by (rule conjunct1)
  then have nonempty: "fetches (effects ?r) \<noteq> []"
    by auto
  have sent: "fetch_of c meth path (Some entries) =
             \<lparr> fetch_url =
                 \<lparr> url_path = path, url_base = baseUrl c,
                   searchParams =
                     (if meth = GET
                      then map (\<lambda>(key, v). (key, String_js v))
                             (filter (\<lambda>(key, v). v \<noteq> JUndefined \<and> v \<noteq> JNull) entries)
                      else []) \<rparr>,
               fetch_method = meth,
               fetch_headers =
                 [(''Authorization'', ''Bearer '' @ secretKey c),
                  (''Content-Type'', ''application/json''),
                  (''User-Agent'', ''@vaultix/sdk/1.0.0'')],
               fetch_body = (if meth = GET then None else Some entries) \<rparr>"
    by (simp add: fetch_of_def build_fetch_def add_query_params_eq)
  have "fetches (effects ?r) = replicate (length (fetches (effects ?r))) (fetch_of c meth path (Some entries))"
    using assms by (rule fetches_request)
  then show ?thesis
    unfolding sent using nonempty by blast
qed

theorem query_params_and_body_witness:
  "any_url ''/v1/charges'' (baseUrl (test_client 3))
   \<and> fetches (effects (request any_url (answers [] (Responds 200 (Json (JObj []))))
         (test_client 3) GET ''/v1/charges''
         (Some [(''limit'', JNum 10), (''starting_after'', JUndefined), (''status'', JNull),
                (''customer'', JStr ''cus_1''), (''livemode'', JBool False)]) 0))
       = [\<lparr> fetch_url =
             \<lparr> url_path = ''/v1/charges'', url_base = ''https://console.velon.app/api'',
               searchParams =
                 [(''limit'', ''10''), (''customer'', ''cus_1''), (''livemode'', ''false'')] \<rparr>,
           fetch_method = GET,
           fetch_headers =
             [(''Authorization'', ''Bearer sk_test_abc''),
              (''Content-Type'', ''application/json''),
              (''User-Agent'', ''@vaultix/sdk/1.0.0'')],
           fetch_body = None \<rparr>]"
proof -
  let ?entries = "[(''limit'', JNum 10), (''starting_after'', JUndefined), (''status'', JNull),
                (''customer'', JStr ''cus_1''), (''livemode'', JBool False)]"
  let ?r = "request any_url (answers [] (Responds 200 (Json (JObj []))))
         (test_client 3) GET ''/v1/charges'' (Some ?entries) 0"
  have url: "any_url ''/v1/charges'' (baseUrl (test_client 3))"
    by (simp add: any_url_def)
  have one: "length (fetches (effects ?r)) = 1"
    by code_simp
  note inst = query_params_and_body [where parses = any_url and path = "''/v1/charges''"
      and c = "test_client 3" and net = "answers [] (Responds 200 (Json (JObj [])))" and rc = 0
      and meth = GET and entries = ?entries, OF url]
  from inst have sent: "fetches (effects ?r) =
           replicate (length (fetches (effects ?r)))
             \<lparr> fetch_url =
                 \<lparr> url_path = ''/v1/charges'', url_base = baseUrl (test_client 3),
                   searchParams =
                     (if GET = GET
                      then map (\<lambda>(key, v). (key, String_js v))
                             (filter (\<lambda>(key, v). v \<noteq> JUndefined \<and> v \<noteq> JNull) ?entries)
                      else []) \<rparr>,
               fetch_method = GET,
               fetch_headers =
                 [(''Authorization'', ''Bearer '' @ secretKey (test_client 3)),
                  (''Content-Type'', ''application/json''),
                  (''User-Agent'', ''@vaultix/sdk/1.0.0'')],
               fetch_body = (if GET = GET then None else Some ?entries) \<rparr>"
    by (rule conjunct2)
  have ten: "string_of_int 10 = ''10''"
    by (simp add: string_of_int_def)
  show ?thesis
    using url sent unfolding one
    by (simp add: test_client_def DEFAULT_BASE_URL_def ten)
qed

section \<open>Errors made by the executor\<close>

text \<open>The three errors the executor fabricates, field by field.\<close>

lemma timeout_error_fields:
  "statusCode (VaultixAPIError_new (timeout_payload c) 408) = 408
   \<and> code (VaultixAPIError_new (timeout_payload c) 408) = JStr ''timeout''
   \<and> type (VaultixAPIError_new (timeout_payload c) 408) = JStr ''api_error''"
  by (simp add: VaultixAPIError_new_def timeout_payload_def)

lemma network_error_fields:
  "statusCode (VaultixAPIError_new (network_error_payload x) 0) = 0
   \<and> code (VaultixAPIError_new (network_error_payload x) 0) = JStr ''network_error''
   \<and> type (VaultixAPIError_new (network_error_payload x) 0) = JStr ''api_error''"
  by (simp add: VaultixAPIError_new_def network_error_payload_def)

lemma unknown_error_fields:
  "statusCode (VaultixAPIError_new unknown_error_payload status) = status
   \<and> code (VaultixAPIError_new unknown_error_payload status) = JStr ''unknown_error''
   \<and> type (VaultixAPIError_new unknown_error_payload status) = JStr ''api_error''"
  by (simp add: VaultixAPIError_new_def unknown_error_payload_def)

text \<open>
  A non-ok response that is not retried and whose body is a JSON value other than \<open>null\<close>
  without a truthy \<open>error\<close> member is thrown as the unknown error with its own status.
\<close>

lemma body_without_error:
  assumes "\<not> response_ok status" and "\<not> shouldRetry c status rc"
      and "json \<noteq> JNull" and "json \<noteq> JUndefined" and "\<not> truthy (member json ''error'')"
  shows "attempt c rc (Responds status (Json json)) =
           Throw (APIError (VaultixAPIError_new unknown_error_payload status))"
  using assms by (simp add: attempt_def try_block_def catch_block_def)

text \<open>
  C9. A 400 response whose body is the JSON text \<open>null\<close>, received by a client with the
  default three retries: reading \<open>json.error\<close> throws inside the \<open>try\<close> block, the \<open>catch\<close>
  block takes the \<open>TypeError\<close> for a network error, and the call fetches four times and
  rejects with type \<open>api_error\<close>, code \<open>network_error\<close> and status 0.
\<close>

theorem null_body_becomes_network_error:
  "length (fetches (effects (request any_url (answers [] (Responds 400 (Json JNull)))
      (test_client 3) POST ''/v1/charges'' None 0))) = 4
   \<and> (case settled (request any_url (answers [] (Responds 400 (Json JNull)))
              (test_client 3) POST ''/v1/charges'' None 0) of
        Inl (APIError e) \<Rightarrow>
          type e = JStr ''api_error'' \<and> code e = JStr ''network_error'' \<and> statusCode e = 0
      | Inl (Other x) \<Rightarrow> False
      | Inr json \<Rightarrow> False)"
proof -
  let ?r = "request any_url (answers [] (Responds 400 (Json JNull)))
      (test_client 3) POST ''/v1/charges'' None 0"
  have n: "length (fetches (effects ?r)) = 4"
    by code_simp
  have st: "settled ?r = Inl (APIError (VaultixAPIError_new (network_error_payload
              (JsError ''TypeError'' ''Cannot read properties of null (reading 'error')'')) 0))"
    by code_simp
  show ?thesis
    unfolding st network_error_eq using n by simp
qed

section \<open>Defaults of the constructor\<close>

lemma no_budget_no_retry:
  assumes "parses path (baseUrl c)" and "maxRetries c \<le> 0"
  shows "effects (request parses net c meth path data 0) = [Fetch (fetch_of c meth path data)]"
proof (cases "attempt c 0 (net 0)")
  case (Return json)
  show ?thesis
    unfolding request_Return [where parses = parses and net = net, OF assms(1) Return] by simp
next
  case (Throw e)
  show ?thesis
    unfolding request_Throw [where parses = parses and net = net, OF assms(1) Throw] by simp
next
  case (Retry ms)
  then have "int 0 < maxRetries c"
    using attempt_Retry by blast
  with assms(2) show ?thesis by simp
qed

text \<open>
  C10. In a constructed client \<open>maxRetries\<close> is the configured number whenever one is given,
  0 included, and 3 only when none is; \<open>timeout\<close> is 30000 when the configured one is absent
  or 0, and \<open>baseUrl\<close> is the default when the configured one is absent or empty. A client
  configured with \<open>maxRetries\<close> 0 makes a single fetch and never sleeps.
\<close>

theorem constructor_defaults:
  assumes "VaultixClient_new config = Inr c"
  shows "maxRetries c = (case config_maxRetries config of None \<Rightarrow> 3 | Some m \<Rightarrow> m)
       \<and> timeout c = (case config_timeout config of
                        None \<Rightarrow> 30000 | Some t \<Rightarrow> if t = 0 then 30000 else t)
       \<and> baseUrl c = (case config_baseUrl config of
                        None \<Rightarrow> ''https://console.velon.app/api''
                      | Some b \<Rightarrow> if b = [] then ''https://console.velon.app/api'' else b)
       \<and> (config_maxRetries config = Some 0 \<longrightarrow> parses path (baseUrl c) \<longrightarrow>
            effects (request parses net c meth path data 0) = [Fetch (fetch_of c meth path data)])"
proof -
  from assms have fields:
    "maxRetries c = (case config_maxRetries config of None \<Rightarrow> 3 | Some m \<Rightarrow> m)"
    "timeout c = (case config_timeout config of
                        None \<Rightarrow> 30000 | Some t \<Rightarrow> if t = 0 then 30000 else t)"
    "baseUrl c = (case config_baseUrl config of
                        None \<Rightarrow> ''https://console.velon.app/api''
                      | Some b \<Rightarrow> if b = [] then ''https://console.velon.app/api'' else b)"
    by (auto simp: VaultixClient_new_def DEFAULT_MAX_RETRIES_def DEFAULT_TIMEOUT_def
          DEFAULT_BASE_URL_def split: option.splits if_splits)
  have "effects (request parses net c meth path data 0) = [Fetch (fetch_of c meth path data)]"
    if "config_maxRetries config = Some 0" and "parses path (baseUrl c)"
  proof -
    from that(1) fields(1) have "maxRetries c \<le> 0" by simp
    with that(2) show ?thesis by (rule no_budget_no_retry)
  qed
  with fields show ?thesis by blast
qed

theorem constructor_defaults_witness:
  "VaultixClient_new zero_config =
     Inr \<lparr> secretKey = ''sk_live_abc'', baseUrl = ''https://console.velon.app/api'',
           timeout = 30000, maxRetries = 0 \<rparr>
   \<and> config_maxRetries zero_config = Some 0
   \<and> any_url ''/v1/balance''
        (baseUrl \<lparr> secretKey = ''sk_live_abc'', baseUrl = ''https://console.velon.app/api'',
                   timeout = 30000, maxRetries = 0 \<rparr>)
   \<and> effects (request any_url (answers [] (Responds 503 (Json (JObj []))))
        \<lparr> secretKey = ''sk_live_abc'', baseUrl = ''https://console.velon.app/api'',
          timeout = 30000, maxRetries = 0 \<rparr> GET ''/v1/balance'' None 0)
       = [Fetch (fetch_of \<lparr> secretKey = ''sk_live_abc'', baseUrl = ''https://console.velon.app/api'',
                            timeout = 30000, maxRetries = 0 \<rparr> GET ''/v1/balance'' None)]"
proof -
  let ?c = "\<lparr> secretKey = ''sk_live_abc'', baseUrl = ''https://console.velon.app/api'',
          timeout = 30000, maxRetries = 0 \<rparr>"
  have made: "VaultixClient_new zero_config = Inr ?c"
    by (simp add: VaultixClient_new_def zero_config_def DEFAULT_BASE_URL_def DEFAULT_TIMEOUT_def)
  have zero: "config_maxRetries zero_config = Some 0"
    by (simp add: zero_config_def)
  have url: "any_url ''/v1/balance'' (baseUrl ?c)"
    by (simp add: any_url_def)
  note inst = constructor_defaults [where config = zero_config and c = ?c and parses = any_url
      and path = "''/v1/balance''" and net = "answers [] (Responds 503 (Json (JObj [])))"
      and meth = GET and data = None, OF made]
  from inst zero url
  have "effects (request any_url (answers [] (Responds 503 (Json (JObj [])))) ?c GET ''/v1/balance'' None 0)
          = [Fetch (fetch_of ?c GET ''/v1/balance'' None)]"
    by blast
  with made zero url show ?thesis by blast
qed

end
